theory Spec2Isabelle
  imports Main
begin

section \<open>Text helpers of the plugin\<close>

text \<open>
  The plugin is Python 2 code; \<^verbatim>\<open>unindent_text\<close> types its arguments as
  \<^verbatim>\<open>str\<close>, a byte string. A \<^typ>\<open>string\<close> is a list of bytes, so the model counts what
  the source counts.
\<close>

definition LF :: char where
  "LF = CHR 0x0A"

definition CR :: char where
  "CR = CHR 0x0D"

text \<open>
  \<^verbatim>\<open>str.splitlines()\<close> (Python 2 byte strings): a line ends at \<^verbatim>\<open>\n\<close>, at \<^verbatim>\<open>\r\<close> or at
  \<^verbatim>\<open>\r\n\<close>; the line ends are dropped, and a text that ends with a line end has no empty
  last line. The first argument is the line that is being collected.
\<close>

fun splitlines_from :: "string \<Rightarrow> string \<Rightarrow> string list" where
  "splitlines_from cur [] = (if cur = [] then [] else [cur])"
| "splitlines_from cur (c # cs) =
     (if c = LF then cur # splitlines_from [] cs
      else if c = CR then
        (case cs of
           [] \<Rightarrow> cur # splitlines_from [] cs
         | d # ds \<Rightarrow> if d = LF then cur # splitlines_from [] ds
                     else cur # splitlines_from [] cs)
      else splitlines_from (cur @ [c]) cs)"

definition splitlines :: "string \<Rightarrow> string list" where
  "splitlines text = splitlines_from [] text"

text \<open>\<^verbatim>\<open>line.startswith(pad)\<close>: the first \<^verbatim>\<open>len(pad)\<close> characters of the line are \<^verbatim>\<open>pad\<close>.\<close>

definition startswith :: "string \<Rightarrow> string \<Rightarrow> bool" where
  "startswith line pad = (take (length pad) line = pad)"

text \<open>\<^verbatim>\<open>sep.join(lines)\<close>.\<close>

fun join :: "string \<Rightarrow> string list \<Rightarrow> string" where
  "join sep [] = []"
| "join sep [x] = x"
| "join sep (x # y # ys) = x @ sep @ join sep (y # ys)"

text \<open>
  The loop of \<^verbatim>\<open>unindent_text\<close>:
  \<^verbatim>\<open>
  for i,line in enumerate(lines):
      if line.startswith(pad):
          lines[i] = line[len(pad):]
  \<close>
  walks the list by index and overwrites the entry it has just read.
\<close>

function unindent_loop :: "string \<Rightarrow> nat \<Rightarrow> string list \<Rightarrow> string list" where
  "unindent_loop pad i lines =
     (if i < length lines then
        (let line = lines ! i in
         if startswith line pad
         then unindent_loop pad (Suc i) (lines[i := drop (length pad) line])
         else unindent_loop pad (Suc i) lines)
      else lines)"
  by pat_completeness auto
termination
  by (relation "measure (\<lambda>(pad, i, lines). length lines - i)") auto

declare unindent_loop.simps [simp del]

definition unindent_text :: "string \<Rightarrow> string \<Rightarrow> string" where
  "unindent_text text pad = join [LF] (unindent_loop pad 0 (splitlines text))"

text \<open>
  \<^verbatim>\<open>\s\<close> of the \<^verbatim>\<open>re\<close> module on a byte string, no flags: space, tab, line feed, carriage
  return, form feed, vertical tab.
\<close>

definition is_space :: "char \<Rightarrow> bool" where
  "is_space c = (c = CHR '' '' \<or> c = CHR 0x09 \<or> c = CHR 0x0A \<or> c = CHR 0x0D
     \<or> c = CHR 0x0C \<or> c = CHR 0x0B)"

text \<open>The greedy scan of \<^verbatim>\<open>\s+\<close> from the start of the subject.\<close>

fun scan_spaces :: "string \<Rightarrow> string" where
  "scan_spaces [] = []"
| "scan_spaces (c # cs) = (if is_space c then c # scan_spaces cs else [])"

text \<open>
  \<^verbatim>\<open>re.match(r'^(\s+)', line)\<close>: the match object, here its group 0, or \<^verbatim>\<open>None\<close> when
  not even one whitespace character starts the line.
\<close>

definition re_match_spaces :: "string \<Rightarrow> string option" where
  "re_match_spaces line = (let g = scan_spaces line in if g = [] then None else Some g)"

text \<open>\<^verbatim>\<open>return m and m.group(0) or ''\<close>\<close>

definition get_line_padding :: "string \<Rightarrow> string" where
  "get_line_padding line =
     (case re_match_spaces line of
        None \<Rightarrow> []
      | Some g \<Rightarrow> if g \<noteq> [] then g else [])"


section \<open>Python values and settings\<close>

text \<open>The exceptions the plugin can meet. \<open>EngineError\<close> stands for any \<^verbatim>\<open>Exception\<close>
  raised inside the embedded script engine.\<close>

datatype py_error = IndexError | UnicodeError | EngineError string

text \<open>A value of the settings file (JSON; numbers are taken to be integers), with Python's
  truth test.\<close>

datatype json = JNull | JBool bool | JInt int | JStr string | JList "json list"
  | JDict "(string \<times> json) list"

fun truthy :: "json \<Rightarrow> bool" where
  "truthy JNull = False"
| "truthy (JBool b) = b"
| "truthy (JInt n) = (n \<noteq> 0)"
| "truthy (JStr s) = (s \<noteq> [])"
| "truthy (JList xs) = (xs \<noteq> [])"
| "truthy (JDict kvs) = (kvs \<noteq> [])"

text \<open>
  The settings object \<^verbatim>\<open>Emmet.sublime-settings\<close>. The four settings the plugin reads
  with a fixed type are typed fields (\<open>None\<close>: the key is not set); \<open>stored\<close> holds
  every other key, as \<^verbatim>\<open>settings.get(k, None)\<close> reads it.
\<close>

record settings =
  extensions_path :: "string option"
  completions_blacklist :: "string list option"
  disable_completions :: "bool option"
  disable_tab_abbreviations_for_scopes :: "string option"
  stored :: "string \<rightharpoonup> json"

text \<open>\<^verbatim>\<open>settings.get(key, default)\<close> and \<^verbatim>\<open>dict.get(key, default)\<close>.\<close>

definition settings_get :: "'a option \<Rightarrow> 'a \<Rightarrow> 'a" where
  "settings_get field dflt = (case field of None \<Rightarrow> dflt | Some v \<Rightarrow> v)"


section \<open>\<^verbatim>\<open>update_settings\<close>\<close>

text \<open>
  \<^verbatim>\<open>ctx\<close> is the engine context (\<^verbatim>\<open>emmet.context.Context\<close>). \<^verbatim>\<open>update_settings\<close>
  only calls it, so the model returns the calls in the order they are made. The payload
  is the dict handed to \<^verbatim>\<open>json.dumps\<close>; the serialisation itself is not modelled.
\<close>

datatype ctx_call =
    Set_ext_path "string option"
  | Reset
  | Load_user_data "string \<rightharpoonup> json"

definition keys :: "string list" where
  "keys = [''snippets'', ''preferences'', ''syntaxProfiles'', ''profiles'']"

text \<open>
  \<^verbatim>\<open>
  for k in keys:
      data = settings.get(k, None)
      if data:
          payload[k] = data
  \<close>
\<close>

fun collect_payload :: "settings \<Rightarrow> string list \<Rightarrow> (string \<rightharpoonup> json) \<Rightarrow> (string \<rightharpoonup> json)" where
  "collect_payload S [] payload = payload"
| "collect_payload S (k # ks) payload =
     (case stored S k of
        None \<Rightarrow> collect_payload S ks payload
      | Some data \<Rightarrow>
          if truthy data then collect_payload S ks (payload(k \<mapsto> data))
          else collect_payload S ks payload)"

definition update_settings :: "settings \<Rightarrow> ctx_call list" where
  "update_settings S =
     [Set_ext_path (extensions_path S),
      Reset,
      Load_user_data (collect_payload S keys Map.empty)]"

section \<open>The editor\<close>

text \<open>
  A region is \<^verbatim>\<open>sublime.Region(a, b)\<close>; \<open>b\<close> is the caret end. A document is the
  buffer with its selection; a view adds the undo history, one entry for each edit group
  closed by \<^verbatim>\<open>end_edit\<close>, the newest first, each holding the document as it was when
  the group was opened.
\<close>

type_synonym region = "int \<times> int"

definition region_begin :: "region \<Rightarrow> int" where
  "region_begin r = min (fst r) (snd r)"

definition region_end :: "region \<Rightarrow> int" where
  "region_end r = max (fst r) (snd r)"

record doc =
  content :: string
  sel :: "region list"

record view =
  doc :: doc
  undo_stack :: "doc list"

text \<open>\<^verbatim>\<open>view.substr(region)\<close>: the characters between the two ends of the region.\<close>

definition substr :: "doc \<Rightarrow> region \<Rightarrow> string" where
  "substr d r =
     take (nat (region_end r) - nat (region_begin r)) (drop (nat (region_begin r)) (content d))"

text \<open>\<^verbatim>\<open>view.line(region)\<close>: the region grown to the start of the line of its begin and
  to the end of the line of its end, the line feed left out.\<close>

definition line_start :: "string \<Rightarrow> nat \<Rightarrow> nat" where
  "line_start t p = min p (length t) - length (takeWhile (\<lambda>c. c \<noteq> LF) (rev (take p t)))"

definition line_end :: "string \<Rightarrow> nat \<Rightarrow> nat" where
  "line_end t p = min p (length t) + length (takeWhile (\<lambda>c. c \<noteq> LF) (drop p t))"

definition line :: "doc \<Rightarrow> region \<Rightarrow> region" where
  "line d r =
     (int (line_start (content d) (nat (region_begin r))),
      int (line_end (content d) (nat (region_end r))))"

text \<open>\<^verbatim>\<open>view.sel()[0]\<close>, which raises \<^verbatim>\<open>IndexError\<close> on an empty selection.\<close>

definition first_sel :: "doc \<Rightarrow> py_error + region" where
  "first_sel d = (case sel d of [] \<Rightarrow> Inl IndexError | r # rs \<Rightarrow> Inr r)"

text \<open>\<^verbatim>\<open>view.run_command('undo')\<close>: back to the document before the newest edit group.
  The history starts when the command does; the edits made earlier are not in it, and
  with no group left the model has nothing to undo.\<close>

definition view_undo :: "view \<Rightarrow> view" where
  "view_undo v =
     (case undo_stack v of
        [] \<Rightarrow> v
      | d # ds \<Rightarrow> \<lparr>doc = d, undo_stack = ds\<rparr>)"

text \<open>
  What the plugin calls and the model cannot compute is a parameter: scope matching,
  erasing a region and inserting a snippet (the editor moves the selections and expands
  the snippet fields), and Python's \<^verbatim>\<open>value.decode('utf-8')\<close>, \<open>None\<close> when it raises.
\<close>

record host =
  match_selector :: "doc \<Rightarrow> int \<Rightarrow> string \<Rightarrow> bool"
  view_erase :: "region \<Rightarrow> doc \<Rightarrow> doc"
  insert_snippet :: "string \<Rightarrow> doc \<Rightarrow> doc"
  decode_utf8 :: "string \<Rightarrow> string option"

text \<open>
  The entry points of the script engine (\<^verbatim>\<open>ctx.js().locals\<close>). The engine reads the
  editor through its own proxy, so each answer may depend on the document. An entry
  point that raises answers \<open>Inl\<close>; \<open>Inr None\<close> is the script's \<^verbatim>\<open>null\<close>.
\<close>

record engine =
  pyRunAction :: "string \<Rightarrow> bool"
  pyExpandAbbreviationAsYouType :: "doc \<Rightarrow> string \<Rightarrow> py_error + string option"
  pyWrapAsYouType :: "doc \<Rightarrow> string \<Rightarrow> string \<Rightarrow> py_error + string option"
  pyCaptureWrappingRange :: "doc \<Rightarrow> (int \<times> int) option"

text \<open>
  The \<^verbatim>\<open>completions\<close> package of the plugin (scope selectors, tag look-up and the static
  tables of \<^verbatim>\<open>completions.meta\<close>) is used here and defined elsewhere; it is a parameter.
\<close>

record cmpl =
  EMMET_SCOPE :: string
  HTML_INSIDE_TAG :: string
  HTML_INSIDE_TAG_ATTRIBUTE :: string
  find_tag_name :: "doc \<Rightarrow> int \<Rightarrow> string option"
  find_attribute_name :: "doc \<Rightarrow> int \<Rightarrow> string option"
  HTML_ELEMENTS_ATTRIBUTES :: "string \<rightharpoonup> string list"
  HTML_ATTRIBUTES_VALUES :: "string \<rightharpoonup> string list"

section \<open>\<^verbatim>\<open>TabExpandHandler\<close>\<close>

text \<open>\<^verbatim>\<open>view.match_selector( view.sel()[0].b, cmpl.EMMET_SCOPE )\<close>\<close>

definition correct_syntax :: "host \<Rightarrow> cmpl \<Rightarrow> doc \<Rightarrow> py_error + bool" where
  "correct_syntax H C d =
     (case first_sel d of
        Inl e \<Rightarrow> Inl e
      | Inr r \<Rightarrow> Inr (match_selector H d (snd r) (EMMET_SCOPE C)))"

text \<open>The two completion handlers, and \<^verbatim>\<open>handler.__name__\<close>.\<close>

datatype handler = Html_elements_attributes | Html_attributes_values

fun handler_name :: "handler \<Rightarrow> string" where
  "handler_name Html_elements_attributes = ''html_elements_attributes''"
| "handler_name Html_attributes_values = ''html_attributes_values''"







text \<open>
  The loop of \<^verbatim>\<open>completion_handler\<close> over the pairs of \<^verbatim>\<open>COMPLETIONS\<close>:
  \<^verbatim>\<open>
  for sub_selector, handler in COMPLETIONS:
      h_name = handler.__name__
      if h_name in black_list: continue
      if (view.match_selector(pos,  sub_selector) or
           view.match_selector(pos - 1,  sub_selector)):
          return handler
  return None
  \<close>
\<close>

fun first_handler :: "host \<Rightarrow> doc \<Rightarrow> string list \<Rightarrow> int \<Rightarrow> (string \<times> handler) list \<Rightarrow> handler option" where
  "first_handler H d black_list pos [] = None"
| "first_handler H d black_list pos ((sub_selector, h) # rest) =
     (if handler_name h \<in> set black_list then first_handler H d black_list pos rest
      else if match_selector H d pos sub_selector \<or> match_selector H d (pos - 1) sub_selector
      then Some h
      else first_handler H d black_list pos rest)"

definition COMPLETIONS :: "cmpl \<Rightarrow> (string \<times> handler) list" where
  "COMPLETIONS C =
     [(HTML_INSIDE_TAG C, Html_elements_attributes),
      (HTML_INSIDE_TAG_ATTRIBUTE C, Html_attributes_values)]"

definition completion_handler :: "host \<Rightarrow> cmpl \<Rightarrow> settings \<Rightarrow> doc \<Rightarrow> py_error + handler option" where
  "completion_handler H C S d =
     (let black_list = settings_get (completions_blacklist S) [] in
      case first_sel d of
        Inl e \<Rightarrow> Inl e
      | Inr r \<Rightarrow> Inr (first_handler H d black_list (snd r) (COMPLETIONS C)))"

text \<open>
  The first guard of \<^verbatim>\<open>on_query_context\<close>, with Python's left-to-right \<^verbatim>\<open>and\<close>:
  \<^verbatim>\<open>
  not settings.get('disable_completions', False) and
  self.correct_syntax(view) and
  self.completion_handler(view)
  \<close>
\<close>

definition completions_apply :: "host \<Rightarrow> cmpl \<Rightarrow> settings \<Rightarrow> doc \<Rightarrow> py_error + bool" where
  "completions_apply H C S d =
     (if settings_get (disable_completions S) False then Inr False
      else case correct_syntax H C d of
        Inl e \<Rightarrow> Inl e
      | Inr ok \<Rightarrow>
          if \<not> ok then Inr False
          else (case completion_handler H C S d of
                  Inl e \<Rightarrow> Inl e
                | Inr h \<Rightarrow> Inr (h \<noteq> None)))"

text \<open>The second guard:
  \<^verbatim>\<open>banned_scopes and view.match_selector(view.sel()[0].b, banned_scopes)\<close>\<close>

definition scope_banned :: "host \<Rightarrow> settings \<Rightarrow> doc \<Rightarrow> py_error + bool" where
  "scope_banned H S d =
     (let banned_scopes = settings_get (disable_tab_abbreviations_for_scopes S) [] in
      if banned_scopes = [] then Inr False
      else case first_sel d of
        Inl e \<Rightarrow> Inl e
      | Inr r \<Rightarrow> Inr (match_selector H d (snd r) banned_scopes))"

text \<open>
  \<^verbatim>\<open>on_query_context\<close> answers a truth value; the second component lists the engine
  actions it has run through \<^verbatim>\<open>pyRunAction\<close>. The arguments \<^verbatim>\<open>op\<close>, \<^verbatim>\<open>operand\<close> and
  \<^verbatim>\<open>match_all\<close> are not read by the source.
\<close>

definition on_query_context ::
  "host \<Rightarrow> engine \<Rightarrow> cmpl \<Rightarrow> settings \<Rightarrow> doc \<Rightarrow> string \<Rightarrow> py_error + (bool \<times> string list)" where
  "on_query_context H E C S d key =
     (if key \<noteq> ''is_abbreviation'' then Inr (False, [])
      else case completions_apply H C S d of
        Inl e \<Rightarrow> Inl e
      | Inr filtered \<Rightarrow>
          if filtered then Inr (False, [])
          else (case scope_banned H S d of
                  Inl e \<Rightarrow> Inl e
                | Inr banned \<Rightarrow>
                    if banned then Inr (False, [])
                    else Inr (pyRunAction E ''expand_abbreviation'', [''expand_abbreviation''])))"


section \<open>The as-you-type commands\<close>

text \<open>
  \<^verbatim>\<open>CommandsAsYouTypeBase\<close> and its two subclasses differ in \<^verbatim>\<open>setup\<close> and
  \<^verbatim>\<open>filter_input\<close> only.
\<close>

datatype kind = CommandsAsYouTypeBase | ExpandAsYouType | WrapAsYouType

text \<open>
  The two closures the commands hand to \<^verbatim>\<open>sublime.set_timeout(f, 0)\<close>:
  \<^verbatim>\<open>lambda: self.view.run_command('undo')\<close> and \<^verbatim>\<open>inner_insert\<close>, which closes over \<^verbatim>\<open>abbr\<close>.
\<close>

datatype task = Undo_task | Inner_insert string

text \<open>
  The state the commands work on: the attributes \<^verbatim>\<open>self.erase\<close> and \<^verbatim>\<open>self.selection\<close>
  of the command object, its view, and the editor's queue of deferred calls, which the
  editor runs one at a time in the order they were queued.
\<close>

record world =
  erase :: bool
  selection :: string
  view :: view
  queue :: "task list"

definition set_timeout :: "world \<Rightarrow> task \<Rightarrow> world" where
  "set_timeout w t = w\<lparr>queue := queue w @ [t]\<rparr>"

text \<open>
  \<^verbatim>\<open>filter_input\<close>: the identity in the base class; in the subclasses the engine's
  answer, and \<^verbatim>\<open>None\<close> when the engine raises (the \<^verbatim>\<open>except Exception\<close> branch returns
  nothing).
\<close>

definition filter_input :: "engine \<Rightarrow> kind \<Rightarrow> world \<Rightarrow> string \<Rightarrow> string option" where
  "filter_input E K w abbr =
     (case K of
        CommandsAsYouTypeBase \<Rightarrow> Some abbr
      | ExpandAsYouType \<Rightarrow>
          (case pyExpandAbbreviationAsYouType E (doc (view w)) abbr of
             Inl e \<Rightarrow> None
           | Inr res \<Rightarrow> res)
      | WrapAsYouType \<Rightarrow>
          (case pyWrapAsYouType E (doc (view w)) abbr (selection w) of
             Inl e \<Rightarrow> None
           | Inr res \<Rightarrow> res))"

text \<open>\<^verbatim>\<open>cmd_input = self.filter_input(abbr) or ''\<close>\<close>

definition cmd_input :: "engine \<Rightarrow> kind \<Rightarrow> world \<Rightarrow> string \<Rightarrow> string" where
  "cmd_input E K w abbr =
     (case filter_input E K w abbr of
        None \<Rightarrow> []
      | Some s \<Rightarrow> if s \<noteq> [] then s else [])"

text \<open>\<^verbatim>\<open>str.isspace()\<close>: at least one character, and whitespace only.\<close>

definition isspace :: "string \<Rightarrow> bool" where
  "isspace s = (s \<noteq> [] \<and> list_all is_space s)"

text \<open>
  The loop of \<^verbatim>\<open>run_command\<close>, over the regions of the selection as it is when the
  loop starts:
  \<^verbatim>\<open>
  for sel in view.sel():
      trailing = sublime.Region(sel.end(), view.line(sel).end())
      if view.substr(trailing).isspace():
          view.erase(self.edit, trailing)
  \<close>
\<close>

fun erase_trailing :: "host \<Rightarrow> region list \<Rightarrow> doc \<Rightarrow> doc" where
  "erase_trailing H [] d = d"
| "erase_trailing H (s # ss) d =
     (let trailing = (region_end s, region_end (line d s)) in
      if isspace (substr d trailing)
      then erase_trailing H ss (view_erase H trailing d)
      else erase_trailing H ss d)"

text \<open>
  \<^verbatim>\<open>run_command(view, value)\<close> has no \<^verbatim>\<open>return\<close>: it answers \<^verbatim>\<open>None\<close>, or raises when
  \<^verbatim>\<open>decode\<close> does. The model answers the document and the exception raised, if any;
  what the loop has erased stays erased.
\<close>

definition run_command :: "host \<Rightarrow> doc \<Rightarrow> string \<Rightarrow> doc \<times> py_error option" where
  "run_command H d val =
     (let d1 = (if LF \<in> set val then erase_trailing H (sel d) d else d) in
      case decode_utf8 H val of
        None \<Rightarrow> (d1, Some UnicodeError)
      | Some contents \<Rightarrow> (insert_snippet H contents d1, None))"

text \<open>
  \<^verbatim>\<open>
  def inner_insert():
      self.edit = edit = view.begin_edit()
      cmd_input  = self.filter_input(abbr) or ''
      try:
          self.erase = self.run_command(view, cmd_input) is not False
      except:
          pass
      view.end_edit(edit)
  \<close>
  \<^verbatim>\<open>None is not False\<close> holds, so \<^verbatim>\<open>self.erase\<close> becomes true whenever
  \<^verbatim>\<open>run_command\<close> returns, and keeps its value when it raises.
\<close>

definition inner_insert :: "host \<Rightarrow> engine \<Rightarrow> kind \<Rightarrow> world \<Rightarrow> string \<Rightarrow> world" where
  "inner_insert H E K w abbr =
     (let snapshot = doc (view w);
          res = run_command H snapshot (cmd_input E K w abbr);
          erase' = (case snd res of None \<Rightarrow> True | Some e \<Rightarrow> erase w)
      in w\<lparr>erase := erase',
            view := \<lparr>doc = fst res, undo_stack = snapshot # undo_stack (view w)\<rparr>\<rparr>)"

text \<open>
  \<^verbatim>\<open>
  def undo(self):
      if self.erase:
          sublime.set_timeout(lambda: self.view.run_command('undo'), 0)
  \<close>
\<close>

definition undo :: "world \<Rightarrow> world" where
  "undo w = (if erase w then set_timeout w Undo_task else w)"

text \<open>
  \<^verbatim>\<open>
  def insert(self, abbr):
      if not abbr and self.erase:
          self.undo()
          self.erase = False
          return
      ...
      self.undo()
      sublime.set_timeout(inner_insert, 0)
  \<close>
\<close>

definition insert_abbr :: "world \<Rightarrow> string \<Rightarrow> world" where
  "insert_abbr w abbr =
     (if abbr = [] \<and> erase w then (undo w)\<lparr>erase := False\<rparr>
      else set_timeout (undo w) (Inner_insert abbr))"

text \<open>Running one deferred call.\<close>

fun run_task :: "host \<Rightarrow> engine \<Rightarrow> kind \<Rightarrow> world \<Rightarrow> task \<Rightarrow> world" where
  "run_task H E K w Undo_task = w\<lparr>view := view_undo (view w)\<rparr>"
| "run_task H E K w (Inner_insert abbr) = inner_insert H E K w abbr"

text \<open>
  What happens to an open input panel: its text changes (\<^verbatim>\<open>on_change=self.insert\<close>), it is
  cancelled (\<^verbatim>\<open>on_cancel=self.undo\<close>), or the editor runs the oldest deferred call.
\<close>

datatype event = Change string | Cancel | Tick

fun step :: "host \<Rightarrow> engine \<Rightarrow> kind \<Rightarrow> world \<Rightarrow> event \<Rightarrow> world" where
  "step H E K w (Change abbr) = insert_abbr w abbr"
| "step H E K w Cancel = undo w"
| "step H E K w Tick =
     (case queue w of
        [] \<Rightarrow> w
      | t # ts \<Rightarrow> run_task H E K (w\<lparr>queue := ts\<rparr>) t)"

fun run_events :: "host \<Rightarrow> engine \<Rightarrow> kind \<Rightarrow> world \<Rightarrow> event list \<Rightarrow> world" where
  "run_events H E K w [] = w"
| "run_events H E K w (ev # evs) = run_events H E K (step H E K w ev) evs"




text \<open>
  \<^verbatim>\<open>WrapAsYouType.setup\<close>. After \<^verbatim>\<open>view.sel().clear()\<close> and
  \<^verbatim>\<open>view.sel().add(sublime.Region(r[0], r[1]))\<close> the selection is that one region, which
  \<^verbatim>\<open>view.sel()[0]\<close> then reads; \<^verbatim>\<open>view.show\<close> scrolls and changes nothing here.
\<close>

definition WrapAsYouType_setup :: "engine \<Rightarrow> world \<Rightarrow> world" where
  "WrapAsYouType_setup E w =
     (case pyCaptureWrappingRange E (doc (view w)) of
        None \<Rightarrow> w
      | Some r \<Rightarrow>
          (let d = (doc (view w))\<lparr>sel := [r]\<rparr>;
               ln = substr d (line d r);
               s = substr d r
           in w\<lparr>view := (view w)\<lparr>doc := d\<rparr>,
                 selection := unindent_text s (get_line_padding ln)\<rparr>))"

fun setup_command :: "kind \<Rightarrow> engine \<Rightarrow> world \<Rightarrow> world" where
  "setup_command WrapAsYouType E w = WrapAsYouType_setup E w"
| "setup_command K E w = w"

text \<open>
  \<^verbatim>\<open>run\<close>: \<^verbatim>\<open>self.setup()\<close>, \<^verbatim>\<open>self.erase = False\<close>, then the input panel is opened; from
  there on the panel's events drive the command.
\<close>

definition run :: "kind \<Rightarrow> engine \<Rightarrow> world \<Rightarrow> world" where
  "run K E w = (setup_command K E w)\<lparr>erase := False\<rparr>"

text \<open>A command object as the class creates it: \<^verbatim>\<open>selection = ''\<close>.\<close>

definition new_command :: "view \<Rightarrow> world" where
  "new_command v = \<lparr>erase = False, selection = [], view = v, queue = []\<rparr>"

section \<open>A small editor and engine to run the model on\<close>

text \<open>
  The snippet replaces the first selection and leaves the caret behind it; erasing
  removes the characters; every string decodes. The engine turns \<open>div\<close> into
  \<open><div></div>\<close>, wraps a text the same way, rejects an abbreviation that is empty or
  ends with \<open>>\<close>, and captures the first selection when it is not empty.
\<close>

definition demo_insert_snippet :: "string \<Rightarrow> doc \<Rightarrow> doc" where
  "demo_insert_snippet contents d =
     (case sel d of
        [] \<Rightarrow> d
      | r # rs \<Rightarrow>
          (let b = nat (region_begin r); e = nat (region_end r) in
           \<lparr>content = take b (content d) @ contents @ drop e (content d),
            sel = [(int (b + length contents), int (b + length contents))]\<rparr>))"

definition demo_erase :: "region \<Rightarrow> doc \<Rightarrow> doc" where
  "demo_erase r d =
     d\<lparr>content := take (nat (region_begin r)) (content d) @ drop (nat (region_end r)) (content d)\<rparr>"

definition demo_host :: host where
  "demo_host =
     \<lparr>match_selector = (\<lambda>d pos s. s = ''text.html'' \<or> s = ''meta.tag''),
      view_erase = demo_erase,
      insert_snippet = demo_insert_snippet,
      decode_utf8 = Some\<rparr>"

definition demo_tag :: "string \<Rightarrow> string \<Rightarrow> py_error + string option" where
  "demo_tag abbr inner =
     (if abbr = [] \<or> last abbr = CHR ''>'' then Inl (EngineError ''parse'')
      else Inr (Some (''<'' @ abbr @ ''>'' @ inner @ ''</'' @ abbr @ ''>'')))"

definition demo_capture :: "doc \<Rightarrow> (int \<times> int) option" where
  "demo_capture d =
     (case sel d of
        [] \<Rightarrow> None
      | r # rs \<Rightarrow> if region_begin r = region_end r then None else Some r)"

definition demo_engine :: engine where
  "demo_engine =
     \<lparr>pyRunAction = (\<lambda>action. True),
      pyExpandAbbreviationAsYouType = (\<lambda>d abbr. demo_tag abbr []),
      pyWrapAsYouType = (\<lambda>d abbr inner. demo_tag abbr inner),
      pyCaptureWrappingRange = demo_capture\<rparr>"

definition demo_cmpl :: cmpl where
  "demo_cmpl =
     \<lparr>EMMET_SCOPE = ''text.html'',
      HTML_INSIDE_TAG = ''meta.tag'',
      HTML_INSIDE_TAG_ATTRIBUTE = ''meta.tag.attribute'',
      find_tag_name = (\<lambda>d pos. if pos = 2 then Some ''a'' else None),
      find_attribute_name = (\<lambda>d pos. None),
      HTML_ELEMENTS_ATTRIBUTES = [''a'' \<mapsto> [''href'', ''title'']],
      HTML_ATTRIBUTES_VALUES = Map.empty\<rparr>"

definition demo_settings :: settings where
  "demo_settings =
     \<lparr>extensions_path = None,
      completions_blacklist = None,
      disable_completions = None,
      disable_tab_abbreviations_for_scopes = Some ''source.css'',
      stored = [''snippets'' \<mapsto> JDict [(''html'', JDict [])],
                ''profiles'' \<mapsto> JDict [],
                ''color_scheme'' \<mapsto> JStr ''Monokai'']\<rparr>"

definition demo_doc :: "string \<Rightarrow> region \<Rightarrow> doc" where
  "demo_doc t r = \<lparr>content = t, sel = [r]\<rparr>"

definition demo_world :: "string \<Rightarrow> region \<Rightarrow> world" where
  "demo_world t r = new_command \<lparr>doc = demo_doc t r, undo_stack = []\<rparr>"

section \<open>Properties of the text helpers\<close>

lemma unindent_loop_length: "length (unindent_loop pad i ls) = length ls"
  by (induction pad i ls rule: unindent_loop.induct)
     (subst unindent_loop.simps, auto simp: Let_def)

lemma unindent_loop_nth:
  "j < length ls \<Longrightarrow>
   unindent_loop pad i ls ! j =
     (if i \<le> j \<and> startswith (ls ! j) pad then drop (length pad) (ls ! j) else ls ! j)"
proof (induction pad i ls rule: unindent_loop.induct)
  case (1 pad i lines)
  show ?case
  proof (cases "i < length lines")
    case False
    with 1 show ?thesis by (subst unindent_loop.simps) auto
  next
    case True
    show ?thesis
    proof (cases "startswith (lines ! i) pad")
      case sw: True
      let ?upd = "lines[i := drop (length pad) (lines ! i)]"
      have "unindent_loop pad i lines ! j = unindent_loop pad (Suc i) ?upd ! j"
        using True sw by (subst unindent_loop.simps) (simp add: Let_def)
      also have "\<dots> = (if Suc i \<le> j \<and> startswith (?upd ! j) pad
           then drop (length pad) (?upd ! j) else ?upd ! j)"
        using "1.IH"(1)[OF True refl sw] "1.prems" by simp
      finally show ?thesis using sw True "1.prems"
        by (cases "i = j") (auto simp: nth_list_update)
    next
      case nsw: False
      have "unindent_loop pad i lines ! j = unindent_loop pad (Suc i) lines ! j"
        using True nsw by (subst unindent_loop.simps) (simp add: Let_def)
      also have "\<dots> = (if Suc i \<le> j \<and> startswith (lines ! j) pad
           then drop (length pad) (lines ! j) else lines ! j)"
        using "1.IH"(2)[OF True refl nsw] "1.prems" by simp
      finally show ?thesis using nsw True "1.prems"
        by (cases "i = j") auto
    qed
  qed
qed

lemma unindent_loop_map:
  "unindent_loop pad 0 ls = map (\<lambda>l. if startswith l pad then drop (length pad) l else l) ls"
  by (rule nth_equalityI) (simp_all add: unindent_loop_length unindent_loop_nth)

lemma startswith_split: "startswith l pad \<Longrightarrow> pad @ drop (length pad) l = l"
  unfolding startswith_def by (metis append_take_drop_id)

lemma scan_spaces_split:
  "\<exists>rest. l = scan_spaces l @ rest \<and> (case rest of [] \<Rightarrow> True | c # cs \<Rightarrow> \<not> is_space c)"
  by (induction l) auto

lemma scan_spaces_all: "c \<in> set (scan_spaces l) \<Longrightarrow> is_space c"
  by (induction l) (auto split: if_splits)

lemma get_line_padding_scan: "get_line_padding l = scan_spaces l"
  by (simp add: get_line_padding_def re_match_spaces_def Let_def)

text \<open>
  Claim C9. \<^verbatim>\<open>unindent_text(text, pad)\<close> is the lines of the text joined by a line feed,
  where a line that starts with \<open>pad\<close> has lost exactly that prefix (putting \<open>pad\<close> back in
  front gives the line again) and any other line is unchanged. \<^verbatim>\<open>get_line_padding(line)\<close>
  is a prefix of the line made of whitespace only, and it is the longest one: what
  follows it is empty or starts with a character that is not whitespace. It is empty
  when the line starts with such a character.
\<close>

theorem unindent_text_get_line_padding:
  "unindent_text text pad =
     join [LF] (map (\<lambda>l. if startswith l pad then drop (length pad) l else l) (splitlines text))
   \<and> (\<forall>l. startswith l pad \<longrightarrow> pad @ drop (length pad) l = l)
   \<and> (\<exists>rest. ln = get_line_padding ln @ rest
        \<and> (\<forall>c \<in> set (get_line_padding ln). is_space c)
        \<and> (case rest of [] \<Rightarrow> True | c # cs \<Rightarrow> \<not> is_space c))
   \<and> (\<forall>c cs. ln = c # cs \<and> \<not> is_space c \<longrightarrow> get_line_padding ln = [])"
proof -
  have a: "unindent_text text pad =
     join [LF] (map (\<lambda>l. if startswith l pad then drop (length pad) l else l) (splitlines text))"
    by (simp add: unindent_text_def unindent_loop_map)
  have b: "\<forall>l. startswith l pad \<longrightarrow> pad @ drop (length pad) l = l"
    by (simp add: startswith_split)
  have c: "\<exists>rest. ln = get_line_padding ln @ rest
        \<and> (\<forall>c \<in> set (get_line_padding ln). is_space c)
        \<and> (case rest of [] \<Rightarrow> True | c # cs \<Rightarrow> \<not> is_space c)"
    using scan_spaces_split[of ln] scan_spaces_all[of _ ln]
    by (auto simp: get_line_padding_scan)
  have d: "\<forall>c cs. ln = c # cs \<and> \<not> is_space c \<longrightarrow> get_line_padding ln = []"
    by (auto simp: get_line_padding_scan)
  from a b c d show ?thesis by blast
qed

theorem unindent_text_get_line_padding_witness:
  "unindent_text (''  a'' @ [LF] @ '' b'' @ [CR, LF] @ ''   c'' @ [LF]) ''  ''
     = ''a'' @ [LF] @ '' b'' @ [LF] @ '' c''
   \<and> startswith ''  a'' ''  '' \<and> ''  '' @ drop (length ''  '') ''  a'' = ''  a''
   \<and> get_line_padding ''  x y'' = ''  ''
   \<and> \<not> is_space (CHR ''x'') \<and> get_line_padding ''x y'' = []"
proof -
  note inst = unindent_text_get_line_padding
    [of "''  a'' @ [LF] @ '' b'' @ [CR, LF] @ ''   c'' @ [LF]" "''  ''" "''x y''"]
  have sl: "splitlines (''  a'' @ [LF] @ '' b'' @ [CR, LF] @ ''   c'' @ [LF]) = [''  a'', '' b'', ''   c'']"
    by code_simp
  have sw: "startswith ''  a'' ''  ''" by (simp add: startswith_def)
  have ns: "\<not> is_space (CHR ''x'')" by (simp add: is_space_def)
  have 1: "unindent_text (''  a'' @ [LF] @ '' b'' @ [CR, LF] @ ''   c'' @ [LF]) ''  ''
     = ''a'' @ [LF] @ '' b'' @ [LF] @ '' c''"
    using inst sl by (simp add: startswith_def)
  have 2: "''  '' @ drop (length ''  '') ''  a'' = ''  a''"
    using inst sw by blast
  have 3: "get_line_padding ''x y'' = []"
    using inst ns by blast
  have 4: "get_line_padding ''  x y'' = ''  ''" by code_simp
  from 1 2 3 4 sw ns show ?thesis by blast
qed

section \<open>Properties of \<^verbatim>\<open>update_settings\<close>\<close>

lemma collect_payload_lookup:
  "collect_payload S ks p k =
     (if k \<in> set ks \<and> (\<exists>v. stored S k = Some v \<and> truthy v) then stored S k else p k)"
  by (induction ks arbitrary: p) (auto split: option.splits)

text \<open>
  Claim C5. The payload that \<^verbatim>\<open>update_settings\<close> loads into the engine has exactly the
  keys among \<open>snippets\<close>, \<open>preferences\<close>, \<open>syntaxProfiles\<close> and \<open>profiles\<close> whose setting is
  there and true in Python's sense (not \<^verbatim>\<open>None\<close>, not empty), each with the value of the
  setting. No other key of the settings is handed on, and a key that is not set is not in
  the payload.
\<close>

theorem update_settings_payload:
  "\<exists>payload. update_settings S = [Set_ext_path (extensions_path S), Reset, Load_user_data payload]
     \<and> dom payload = {k \<in> {''snippets'', ''preferences'', ''syntaxProfiles'', ''profiles''}.
                         \<exists>v. stored S k = Some v \<and> truthy v}
     \<and> (\<forall>k \<in> dom payload. payload k = stored S k)"
proof -
  let ?p = "collect_payload S keys Map.empty"
  have k: "set keys = {''snippets'', ''preferences'', ''syntaxProfiles'', ''profiles''}"
    by (simp add: keys_def)
  have l: "\<And>k. ?p k = (if k \<in> set keys \<and> (\<exists>v. stored S k = Some v \<and> truthy v)
                         then stored S k else None)"
    by (simp add: collect_payload_lookup)
  have 1: "update_settings S = [Set_ext_path (extensions_path S), Reset, Load_user_data ?p]"
    by (simp add: update_settings_def)
  have 2: "dom ?p = {k \<in> set keys. \<exists>v. stored S k = Some v \<and> truthy v}"
    unfolding dom_def l by auto
  have 3: "\<forall>k \<in> dom ?p. ?p k = stored S k"
    unfolding dom_def l by auto
  from 1 2 3 show ?thesis unfolding k by blast
qed

theorem update_settings_payload_witness:
  "\<exists>payload. update_settings demo_settings = [Set_ext_path None, Reset, Load_user_data payload]
     \<and> dom payload = {''snippets''}
     \<and> payload ''snippets'' = Some (JDict [(''html'', JDict [])])"
proof -
  from update_settings_payload [of demo_settings] obtain payload where
    all: "update_settings demo_settings
          = [Set_ext_path (extensions_path demo_settings), Reset, Load_user_data payload]
     \<and> dom payload = {k \<in> {''snippets'', ''preferences'', ''syntaxProfiles'', ''profiles''}.
                         \<exists>v. stored demo_settings k = Some v \<and> truthy v}
     \<and> (\<forall>k \<in> dom payload. payload k = stored demo_settings k)" ..
  have a: "stored demo_settings ''snippets'' = Some (JDict [(''html'', JDict [])])"
    by (simp add: demo_settings_def)
  have b: "stored demo_settings ''preferences'' = None"
    by (simp add: demo_settings_def)
  have c: "stored demo_settings ''syntaxProfiles'' = None"
    by (simp add: demo_settings_def)
  have e: "stored demo_settings ''profiles'' = Some (JDict [])"
    by (simp add: demo_settings_def)
  have s: "{k \<in> {''snippets'', ''preferences'', ''syntaxProfiles'', ''profiles''}.
              \<exists>v. stored demo_settings k = Some v \<and> truthy v} = {''snippets''}"
    using a b c e by auto
  have x: "extensions_path demo_settings = None"
    by (simp add: demo_settings_def)
  from all have u: "update_settings demo_settings = [Set_ext_path None, Reset, Load_user_data payload]"
    unfolding x by (rule conjunct1)
  from all have d: "dom payload = {''snippets''}"
    unfolding s by simp
  from all have "\<forall>k \<in> dom payload. payload k = stored demo_settings k"
    by simp
  with d a have v: "payload ''snippets'' = Some (JDict [(''html'', JDict [])])"
    by simp
  from u d v show ?thesis by blast
qed

section \<open>Properties of \<^verbatim>\<open>TabExpandHandler\<close>\<close>

lemma first_sel_Cons: "sel d = r # rs \<Longrightarrow> first_sel d = Inr r"
  by (simp add: first_sel_def)

text \<open>
  Claim C6. With the caret at \<open>pos\<close>, \<^verbatim>\<open>completion_handler\<close> answers the first of the two
  pairs, in the order (\<^verbatim>\<open>HTML_INSIDE_TAG\<close>, \<^verbatim>\<open>html_elements_attributes\<close>),
  (\<^verbatim>\<open>HTML_INSIDE_TAG_ATTRIBUTE\<close>, \<^verbatim>\<open>html_attributes_values\<close>), whose function name is not in
  the blacklist and whose selector matches at \<open>pos\<close> or at \<open>pos - 1\<close>; it answers \<^verbatim>\<open>None\<close>
  when neither pair does.
\<close>

theorem completion_handler_first_match:
  "sel d = r # rs \<Longrightarrow>
   completion_handler H C S d =
     Inr (let black_list = settings_get (completions_blacklist S) [];
              pos = snd r;
              matches = (\<lambda>sub. match_selector H d pos sub \<or> match_selector H d (pos - 1) sub)
          in if ''html_elements_attributes'' \<notin> set black_list \<and> matches (HTML_INSIDE_TAG C)
             then Some Html_elements_attributes
             else if ''html_attributes_values'' \<notin> set black_list
                       \<and> matches (HTML_INSIDE_TAG_ATTRIBUTE C)
             then Some Html_attributes_values
             else None)"
  by (simp add: completion_handler_def first_sel_Cons COMPLETIONS_def Let_def)

theorem completion_handler_first_match_witness:
  "sel (demo_doc ''<a >'' (2, 2)) = [(2, 2)]
   \<and> completion_handler demo_host demo_cmpl demo_settings (demo_doc ''<a >'' (2, 2))
        = Inr (Some Html_elements_attributes)
   \<and> completion_handler demo_host demo_cmpl
        (demo_settings\<lparr>completions_blacklist := Some [''html_elements_attributes'']\<rparr>)
        (demo_doc ''<a >'' (2, 2)) = Inr None"
proof -
  have s: "sel (demo_doc ''<a >'' (2, 2)) = (2, 2) # []" by (simp add: demo_doc_def)
  show ?thesis
    using completion_handler_first_match [OF s, of demo_host demo_cmpl demo_settings]
      completion_handler_first_match [OF s, of demo_host demo_cmpl
        "demo_settings\<lparr>completions_blacklist := Some [''html_elements_attributes'']\<rparr>"]
    by (simp add: demo_doc_def demo_host_def demo_cmpl_def demo_settings_def settings_get_def)
qed





text \<open>
  Claim C10. \<^verbatim>\<open>on_query_context\<close> answers \<^verbatim>\<open>False\<close> and runs no engine action when the key
  is not \<open>is_abbreviation\<close>, when completions are enabled and a completion handler applies
  at the caret in the Emmet scope, or when the caret matches the scopes of
  \<^verbatim>\<open>disable_tab_abbreviations_for_scopes\<close>. In every other case, and only then, it runs the
  action \<open>expand_abbreviation\<close> once and answers what the action answers.
\<close>

theorem on_query_context_guards:
  "sel d = r # rs \<Longrightarrow>
   on_query_context H E C S d key =
     (let pos = snd r;
          black_list = settings_get (completions_blacklist S) [];
          banned_scopes = settings_get (disable_tab_abbreviations_for_scopes S) [];
          handler_applies =
            (\<not> settings_get (disable_completions S) False
             \<and> match_selector H d pos (EMMET_SCOPE C)
             \<and> first_handler H d black_list pos (COMPLETIONS C) \<noteq> None);
          scope_is_banned = (banned_scopes \<noteq> [] \<and> match_selector H d pos banned_scopes)
      in if key \<noteq> ''is_abbreviation'' \<or> handler_applies \<or> scope_is_banned
         then Inr (False, [])
         else Inr (pyRunAction E ''expand_abbreviation'', [''expand_abbreviation'']))"
  by (simp add: on_query_context_def completions_apply_def scope_banned_def correct_syntax_def
        completion_handler_def first_sel_Cons Let_def)

theorem on_query_context_guards_witness:
  "sel (demo_doc ''<a >'' (2, 2)) = [(2, 2)]
   \<and> on_query_context demo_host demo_engine demo_cmpl demo_settings (demo_doc ''<a >'' (2, 2))
        ''is_abbreviation'' = Inr (False, [])
   \<and> on_query_context demo_host demo_engine demo_cmpl
        (demo_settings\<lparr>disable_completions := Some True\<rparr>) (demo_doc ''<a >'' (2, 2))
        ''is_abbreviation'' = Inr (True, [''expand_abbreviation''])
   \<and> on_query_context demo_host demo_engine demo_cmpl
        (demo_settings\<lparr>disable_completions := Some True\<rparr>) (demo_doc ''<a >'' (2, 2))
        ''setting.x'' = Inr (False, [])"
proof -
  have s: "sel (demo_doc ''<a >'' (2, 2)) = (2, 2) # []" by (simp add: demo_doc_def)
  have 1: "on_query_context demo_host demo_engine demo_cmpl demo_settings (demo_doc ''<a >'' (2, 2))
        ''is_abbreviation'' = Inr (False, [])"
    using on_query_context_guards
      [OF s, of demo_host demo_engine demo_cmpl demo_settings "''is_abbreviation''"]
    by (simp add: demo_host_def demo_cmpl_def demo_settings_def settings_get_def
          COMPLETIONS_def Let_def)
  have 2: "on_query_context demo_host demo_engine demo_cmpl
        (demo_settings\<lparr>disable_completions := Some True\<rparr>) (demo_doc ''<a >'' (2, 2))
        ''is_abbreviation'' = Inr (True, [''expand_abbreviation''])"
    using on_query_context_guards
      [OF s, of demo_host demo_engine demo_cmpl
         "demo_settings\<lparr>disable_completions := Some True\<rparr>" "''is_abbreviation''"]
    by (simp add: demo_host_def demo_engine_def demo_cmpl_def demo_settings_def settings_get_def
          COMPLETIONS_def Let_def)
  have 3: "on_query_context demo_host demo_engine demo_cmpl
        (demo_settings\<lparr>disable_completions := Some True\<rparr>) (demo_doc ''<a >'' (2, 2))
        ''setting.x'' = Inr (False, [])"
    using on_query_context_guards
      [OF s, of demo_host demo_engine demo_cmpl
         "demo_settings\<lparr>disable_completions := Some True\<rparr>" "''setting.x''"]
    by (simp add: Let_def)
  from s 1 2 3 show ?thesis by simp
qed

section \<open>Properties of the as-you-type commands\<close>

lemma undo_fields:
  "view (undo w) = view w"
  "erase (undo w) = erase w"
  "selection (undo w) = selection w"
  "queue (undo w) = queue w @ (if erase w then [Undo_task] else [])"
  by (simp_all add: undo_def set_timeout_def)

lemma insert_abbr_fields:
  "view (insert_abbr w abbr) = view w"
  "selection (insert_abbr w abbr) = selection w"
  "erase (insert_abbr w abbr) = (erase w \<and> abbr \<noteq> [])"
  "queue (insert_abbr w abbr) =
     queue w @ (if erase w then [Undo_task] else [])
             @ (if abbr = [] \<and> erase w then [] else [Inner_insert abbr])"
  by (auto simp: insert_abbr_def undo_def set_timeout_def)


lemma inner_insert_fields:
  "selection (inner_insert H E K w abbr) = selection w"
  "queue (inner_insert H E K w abbr) = queue w"
  "undo_stack (view (inner_insert H E K w abbr)) = doc (view w) # undo_stack (view w)"
  "doc (view (inner_insert H E K w abbr)) = fst (run_command H (doc (view w)) (cmd_input E K w abbr))"
  "erase (inner_insert H E K w abbr) =
     (case snd (run_command H (doc (view w)) (cmd_input E K w abbr)) of
        None \<Rightarrow> True | Some e \<Rightarrow> erase w)"
  by (simp_all add: inner_insert_def Let_def)

lemma cmd_input_cong:
  "doc (view a) = doc (view b) \<Longrightarrow> selection a = selection b \<Longrightarrow>
   cmd_input E K a abbr = cmd_input E K b abbr"
  by (cases K) (simp_all add: cmd_input_def filter_input_def)


lemma cmd_input_erase: "cmd_input E K (w\<lparr>erase := b\<rparr>) abbr = cmd_input E K w abbr"
  by (rule cmd_input_cong) simp_all

lemma view_undo_push: "view_undo \<lparr>doc = d', undo_stack = d # ds\<rparr> = \<lparr>doc = d, undo_stack = ds\<rparr>"
  by (simp add: view_undo_def)



lemma filter_input_view_only:
  "doc (view a) = doc (view b) \<Longrightarrow> selection a = selection b \<Longrightarrow>
   filter_input E K a abbr = filter_input E K b abbr"
  by (cases K) (simp_all add: filter_input_def)




lemma step_Tick_Cons:
  "queue w = t # ts \<Longrightarrow> step H E K w Tick = run_task H E K (w\<lparr>queue := ts\<rparr>) t"
  by simp

lemma step_Tick_Nil: "queue w = [] \<Longrightarrow> step H E K w Tick = w"
  by simp














lemma substr_sel: "substr (d\<lparr>sel := s\<rparr>) r = substr d r"
  by (simp add: substr_def)

lemma line_sel: "line (d\<lparr>sel := s\<rparr>) r = line d r"
  by (simp add: line_def)

lemma WrapAsYouType_setup_no_range:
  "pyCaptureWrappingRange E (doc (view w)) = None \<Longrightarrow> WrapAsYouType_setup E w = w"
  by (simp add: WrapAsYouType_setup_def)

lemma WrapAsYouType_setup_range:
  assumes "pyCaptureWrappingRange E (doc (view w)) = Some r"
  shows "sel (doc (view (WrapAsYouType_setup E w))) = [r]"
    and "content (doc (view (WrapAsYouType_setup E w))) = content (doc (view w))"
    and "selection (WrapAsYouType_setup E w) =
           unindent_text (substr (doc (view w)) r)
             (get_line_padding (substr (doc (view w)) (line (doc (view w)) r)))"
  using assms by (simp_all add: WrapAsYouType_setup_def Let_def substr_sel line_sel)

lemma run_task_selection: "selection (run_task H E K w t) = selection w"
  by (cases t) (simp_all add: inner_insert_fields)

lemma step_selection: "selection (step H E K w ev) = selection w"
proof (cases ev)
  case (Change a)
  then show ?thesis by (simp add: insert_abbr_fields)
next
  case Cancel
  then show ?thesis by (simp add: undo_fields)
next
  case Tick
  then show ?thesis by (cases "queue w") (simp_all add: run_task_selection)
qed

lemma run_events_selection: "selection (run_events H E K w evs) = selection w"
  by (induction evs arbitrary: w) (simp_all add: step_selection)

text \<open>
  Claim C4, as the code has it. \<^verbatim>\<open>WrapAsYouType.setup\<close> reads the text to wrap once, from
  the range the engine has captured, and stores it. Whatever happens to the panel and to
  the document afterwards, the stored text stays the same, and every application of a
  wrap abbreviation hands that stored text to the engine; the range is not read again.
\<close>

theorem wrap_uses_text_captured_by_setup:
  "pyCaptureWrappingRange E (doc (view w)) = Some r \<Longrightarrow>
   (let captured = unindent_text (substr (doc (view w)) r)
                     (get_line_padding (substr (doc (view w)) (line (doc (view w)) r)));
        w' = run_events H E WrapAsYouType (run WrapAsYouType E w) evs
    in selection w' = captured
       \<and> filter_input E WrapAsYouType w' abbr =
           (case pyWrapAsYouType E (doc (view w')) abbr captured of
              Inl e \<Rightarrow> None
            | Inr res \<Rightarrow> res))"
proof -
  assume c: "pyCaptureWrappingRange E (doc (view w)) = Some r"
  let ?captured = "unindent_text (substr (doc (view w)) r)
                     (get_line_padding (substr (doc (view w)) (line (doc (view w)) r)))"
  let ?w' = "run_events H E WrapAsYouType (run WrapAsYouType E w) evs"
  have "selection (run WrapAsYouType E w) = ?captured"
    by (simp add: run_def WrapAsYouType_setup_range(3) [OF c])
  then have s: "selection ?w' = ?captured"
    by (simp add: run_events_selection)
  then have "filter_input E WrapAsYouType ?w' abbr =
           (case pyWrapAsYouType E (doc (view ?w')) abbr ?captured of
              Inl e \<Rightarrow> None
            | Inr res \<Rightarrow> res)"
    by (simp add: filter_input_def)
  with s show ?thesis by (simp add: Let_def)
qed

theorem wrap_uses_text_captured_by_setup_witness:
  "pyCaptureWrappingRange demo_engine (doc (view (demo_world ''  abc'' (2, 5)))) = Some (2, 5)
   \<and> selection (run_events demo_host demo_engine WrapAsYouType
         (run WrapAsYouType demo_engine (demo_world ''  abc'' (2, 5)))
         [Change ''p'', Tick, Change ''pr'', Tick]) = ''abc''
   \<and> filter_input demo_engine WrapAsYouType
         (run_events demo_host demo_engine WrapAsYouType
           (run WrapAsYouType demo_engine (demo_world ''  abc'' (2, 5)))
           [Change ''p'', Tick, Change ''pr'', Tick]) ''pre'' = Some ''<pre>abc</pre>''"
proof -
  let ?w = "demo_world ''  abc'' (2, 5)"
  let ?evs = "[Change ''p'', Tick, Change ''pr'', Tick]"
  let ?w' = "run_events demo_host demo_engine WrapAsYouType (run WrapAsYouType demo_engine ?w) ?evs"
  have c: "pyCaptureWrappingRange demo_engine (doc (view ?w)) = Some (2, 5)"
    by code_simp
  have cap: "unindent_text (substr (doc (view ?w)) (2, 5))
               (get_line_padding (substr (doc (view ?w)) (line (doc (view ?w)) (2, 5)))) = ''abc''"
    by code_simp
  have wr: "\<And>d. pyWrapAsYouType demo_engine d ''pre'' ''abc'' = Inr (Some ''<pre>abc</pre>'')"
    by (simp add: demo_engine_def demo_tag_def)
  from wrap_uses_text_captured_by_setup
         [OF c, of demo_host ?evs "''pre''"]
  have "selection ?w' = ''abc''"
    and "filter_input demo_engine WrapAsYouType ?w' ''pre'' =
           (case pyWrapAsYouType demo_engine (doc (view ?w')) ''pre'' ''abc'' of
              Inl e \<Rightarrow> None
            | Inr res \<Rightarrow> res)"
    unfolding cap Let_def by blast+
  with c wr show ?thesis by simp
qed

text \<open>
  The claim as it is written fails: when the second application runs here, the document
  is \<open><d>abc</d>\<close>, the captured range holds \<open><d>\<close> and the selection is a bare caret, yet
  the engine is given the text \<open>abc\<close> that \<^verbatim>\<open>setup\<close> stored.
\<close>

theorem wrap_ignores_live_document:
  "queue (run_events demo_host demo_engine WrapAsYouType
       (run WrapAsYouType demo_engine (demo_world ''abc'' (0, 3)))
       [Change ''d'', Change ''di'', Tick]) = [Inner_insert ''di'']
   \<and> content (doc (view (run_events demo_host demo_engine WrapAsYouType
       (run WrapAsYouType demo_engine (demo_world ''abc'' (0, 3)))
       [Change ''d'', Change ''di'', Tick]))) = ''<d>abc</d>''
   \<and> sel (doc (view (run_events demo_host demo_engine WrapAsYouType
       (run WrapAsYouType demo_engine (demo_world ''abc'' (0, 3)))
       [Change ''d'', Change ''di'', Tick]))) = [(10, 10)]
   \<and> substr (doc (view (run_events demo_host demo_engine WrapAsYouType
       (run WrapAsYouType demo_engine (demo_world ''abc'' (0, 3)))
       [Change ''d'', Change ''di'', Tick]))) (0, 3) = ''<d>''
   \<and> filter_input demo_engine WrapAsYouType
       (run_events demo_host demo_engine WrapAsYouType
         (run WrapAsYouType demo_engine (demo_world ''abc'' (0, 3)))
         [Change ''d'', Change ''di'', Tick]) ''di'' = Some ''<di>abc</di>''
   \<and> content (doc (view (run_events demo_host demo_engine WrapAsYouType
       (run WrapAsYouType demo_engine (demo_world ''abc'' (0, 3)))
       [Change ''d'', Change ''di'', Tick, Tick]))) = ''<d>abc</d><di>abc</di>''"
  by code_simp

text \<open>
  Claim C8 says that with no range to wrap the stored text is the empty default and
  nothing is wrapped. \<^verbatim>\<open>setup\<close> returns early and leaves \<^verbatim>\<open>self.selection\<close> as it is, which
  is the class default only on a command object that has not captured a range before. On
  the second use of a command object, here with the caret on an empty line, the text of
  the first use is still stored, and the abbreviation typed next wraps it.
\<close>

theorem wrap_setup_keeps_earlier_selection:
  "selection (run WrapAsYouType demo_engine (demo_world (''abc'' @ [LF]) (0, 3))) = ''abc''
   \<and> pyCaptureWrappingRange demo_engine (demo_doc (''abc'' @ [LF]) (4, 4)) = None
   \<and> selection (run WrapAsYouType demo_engine
        ((run WrapAsYouType demo_engine (demo_world (''abc'' @ [LF]) (0, 3)))
           \<lparr>view := \<lparr>doc = demo_doc (''abc'' @ [LF]) (4, 4), undo_stack = []\<rparr>\<rparr>)) = ''abc''
   \<and> sel (doc (view (run WrapAsYouType demo_engine
        ((run WrapAsYouType demo_engine (demo_world (''abc'' @ [LF]) (0, 3)))
           \<lparr>view := \<lparr>doc = demo_doc (''abc'' @ [LF]) (4, 4), undo_stack = []\<rparr>\<rparr>)))) = [(4, 4)]
   \<and> content (doc (view (run_events demo_host demo_engine WrapAsYouType
        (run WrapAsYouType demo_engine
          ((run WrapAsYouType demo_engine (demo_world (''abc'' @ [LF]) (0, 3)))
             \<lparr>view := \<lparr>doc = demo_doc (''abc'' @ [LF]) (4, 4), undo_stack = []\<rparr>\<rparr>))
        [Change ''p'', Tick]))) = ''abc'' @ [LF] @ ''<p>abc</p>''"
  by code_simp

end
